theory Spec2Isabelle
  imports Main "HOL-Library.Multiset" "HOL-Library.List_Lexorder"
begin

section \<open>Data model of the sync dashboard (server/main.py)\<close>

text \<open>
  A Python \<open>str\<close> is a sequence of Unicode code points and \<open>bytes\<close> a sequence of
  octets. Strings compare as Python compares them: lexicographically by code point,
  which is the order \<open>HOL-Library.List_Lexorder\<close> puts on \<open>nat list\<close>.
\<close>

type_synonym pystr = "nat list"
type_synonym bytes = "char list"

definition lit :: "string \<Rightarrow> pystr" where
  "lit s = map of_char s"

definition PENDING :: pystr where
  "PENDING = lit ''PENDING''"

definition APPROVED :: pystr where
  "APPROVED = lit ''APPROVED''"


definition UNKNOWN :: pystr where
  "UNKNOWN = lit ''UNKNOWN''"

text \<open>
  The three log files share the columns
  \<open>upload_id, timestamp, filename, sha256, prop_id, status, file_path\<close>. The first six
  are what \<open>get_staging_data\<close> selects; \<open>file_path\<close> is the sensitive seventh.
  A CSV file is modelled by the data frame \<open>pd.read_csv\<close> loads from it and
  \<open>to_csv\<close> writes back: the list of its rows, in order.
\<close>

record safe_row =
  upload_id :: pystr
  timestamp :: pystr
  filename :: pystr
  sha256 :: pystr
  prop_id :: pystr
  status :: pystr

record row = safe_row +
  file_path :: pystr

type_synonym table = "row list"

text \<open>
  The persistent state: the three CSV logs and the files under \<open>UPLOAD_DIR\<close>.
\<close>

record store =
  STAGING_FILE :: table
  AUDIT_FILE :: table
  ROLLBACK_FILE :: table
  uploads :: "pystr \<rightharpoonup> bytes"

definition empty_store :: store where
  "empty_store = \<lparr>STAGING_FILE = [], AUDIT_FILE = [], ROLLBACK_FILE = [], uploads = Map.empty\<rparr>"

text \<open>
  \<open>HTTPException(status_code, detail)\<close> is what the handlers raise themselves;
  \<open>OSError\<close> is what \<open>open\<close> and \<open>shutil.copyfileobj\<close> raise when the upload cannot
  be written.
\<close>

datatype error = HTTPException nat string | OSError

fun is_not_found :: "error \<Rightarrow> bool" where
  "is_not_found (HTTPException code detail) = (code = 404)"
| "is_not_found OSError = False"

datatype message = Message string string

definition ids :: "table \<Rightarrow> pystr set" where
  "ids df = upload_id ` set df"

section \<open>approve and rollback\<close>

text \<open>
  \<open>df[df["upload_id"] == upload_id]\<close> selects the matching rows into a new frame.
\<close>

definition select_id :: "pystr \<Rightarrow> table \<Rightarrow> table" where
  "select_id uid df = filter (\<lambda>r. upload_id r = uid) df"

text \<open>
  \<open>df.loc[df["upload_id"] == upload_id, "status"] = v\<close> writes \<open>v\<close> into the status cell
  of every matching row of \<open>df\<close> itself.
\<close>

definition set_status :: "pystr \<Rightarrow> pystr \<Rightarrow> table \<Rightarrow> table" where
  "set_status uid v df = map (\<lambda>r. if upload_id r = uid then r\<lparr>status := v\<rparr> else r) df"

text \<open>
  \<open>approve_upload\<close>: \<open>row\<close> is selected before the status is written into \<open>df\<close>, and a
  boolean-mask selection is a copy, so \<open>row\<close> keeps the status the staging log held when
  the call began. The staging log is written back with the status changed and the row
  still in it; the audit log gets \<open>row\<close> appended.
\<close>

definition approve_upload :: "pystr \<Rightarrow> store \<Rightarrow> (error + message) \<times> store" where
  "approve_upload uid s =
     (let df = STAGING_FILE s;
          row = select_id uid df
      in if row = [] then (Inl (HTTPException 404 ''Upload not found''), s)
         else
           let df = set_status uid APPROVED df;
               s = s\<lparr>STAGING_FILE := df\<rparr>;
               audit_df = AUDIT_FILE s;
               approved_row = row;
               audit_df = audit_df @ approved_row;
               s = s\<lparr>AUDIT_FILE := audit_df\<rparr>
           in (Inr (Message ''success'' ''Upload approved and processed''), s))"

text \<open>
  \<open>rollback_upload\<close>: the matching rows leave the audit log and are appended, as they
  are, to the rollback log.
\<close>

definition rollback_upload :: "pystr \<Rightarrow> store \<Rightarrow> (error + message) \<times> store" where
  "rollback_upload uid s =
     (let audit_df = AUDIT_FILE s;
          row = select_id uid audit_df
      in if row = [] then (Inl (HTTPException 404 ''Upload not found in audit log''), s)
         else
           let audit_df = filter (\<lambda>r. upload_id r \<noteq> uid) audit_df;
               s = s\<lparr>AUDIT_FILE := audit_df\<rparr>;
               rollback_df = ROLLBACK_FILE s;
               rollback_df = rollback_df @ row;
               s = s\<lparr>ROLLBACK_FILE := rollback_df\<rparr>
           in (Inr (Message ''success'' ''Upload has been rolled back successfully''), s))"


datatype rolled = Rolled_back pystr


section \<open>Text handling of the upload handlers\<close>

text \<open>
  \<open>contents.decode("utf-8", errors="ignore")\<close>: CPython's UTF-8 decoder, with the
  \<open>ignore\<close> handler dropping each span it reports as an error and decoding on behind
  it. An invalid start byte is a span of one byte; an invalid continuation byte ends a
  span of the bytes accepted before it; a sequence cut off by the end of the input is
  a span up to the end. Overlong forms, surrogates (\<open>ED A0..BF\<close>) and code points above
  \<open>10FFFF\<close> are refused at the second byte.
\<close>

definition is_continuation :: "nat \<Rightarrow> bool" where
  "is_continuation b = (128 \<le> b \<and> b < 192)"

text \<open>
  The second bytes refused behind the lead byte \<open>b\<close> of a three-byte and of a four-byte
  sequence: below \<open>A0\<close> behind \<open>E0\<close> and from \<open>A0\<close> on behind \<open>ED\<close>; below \<open>90\<close> behind
  \<open>F0\<close> and from \<open>90\<close> on behind \<open>F4\<close>.
\<close>

definition refused_second3 :: "nat \<Rightarrow> nat \<Rightarrow> bool" where
  "refused_second3 b c = (if c < 160 then b = 224 else b = 237)"

definition refused_second4 :: "nat \<Rightarrow> nat \<Rightarrow> bool" where
  "refused_second4 b c = (if c < 144 then b = 240 else b = 244)"

fun utf8_ignore :: "nat list \<Rightarrow> pystr" where
  "utf8_ignore [] = []"
| "utf8_ignore (b # bs) =
     (if b < 128 then b # utf8_ignore bs
      else if b < 194 then utf8_ignore bs
      else if b < 224 then
        (case bs of
           [] \<Rightarrow> []
         | c # cs \<Rightarrow>
             if is_continuation c
             then ((b - 192) * 64 + (c - 128)) # utf8_ignore cs
             else utf8_ignore bs)
      else if b < 240 then
        (case bs of
           [] \<Rightarrow> []
         | c # cs \<Rightarrow>
             if \<not> is_continuation c \<or> refused_second3 b c
             then utf8_ignore bs
             else
               (case cs of
                  [] \<Rightarrow> []
                | d # ds \<Rightarrow>
                    if is_continuation d
                    then ((b - 224) * 4096 + (c - 128) * 64 + (d - 128)) # utf8_ignore ds
                    else utf8_ignore cs))
      else if b < 245 then
        (case bs of
           [] \<Rightarrow> []
         | c # cs \<Rightarrow>
             if \<not> is_continuation c \<or> refused_second4 b c
             then utf8_ignore bs
             else
               (case cs of
                  [] \<Rightarrow> []
                | d # ds \<Rightarrow>
                    if \<not> is_continuation d then utf8_ignore cs
                    else
                      (case ds of
                         [] \<Rightarrow> []
                       | e # es \<Rightarrow>
                           if is_continuation e
                           then ((b - 240) * 262144 + (c - 128) * 4096 + (d - 128) * 64
                                 + (e - 128)) # utf8_ignore es
                           else utf8_ignore ds)))
      else utf8_ignore bs)"

definition decode_ignore :: "bytes \<Rightarrow> pystr" where
  "decode_ignore contents = utf8_ignore (map of_char contents)"



text \<open>
  \<open>str.splitlines()\<close>: a line ends at LF, VT, FF, CR, CR LF, FS, GS, RS, NEL, LS or PS;
  the terminators are dropped, and no empty last line is made behind the final one.
  The flag remembers a CR just seen, whose LF belongs to it.
\<close>

definition is_linebreak :: "nat \<Rightarrow> bool" where
  "is_linebreak c = (c \<in> {10, 11, 12, 13, 28, 29, 30, 133, 8232, 8233})"

fun split_lines :: "bool \<Rightarrow> pystr \<Rightarrow> pystr \<Rightarrow> pystr list" where
  "split_lines after_cr cur [] = (if cur = [] then [] else [rev cur])"
| "split_lines after_cr cur (c # cs) =
     (if after_cr \<and> c = 10 then split_lines False cur cs
      else if is_linebreak c then rev cur # split_lines (c = 13) [] cs
      else split_lines False (c # cur) cs)"

definition splitlines :: "pystr \<Rightarrow> pystr list" where
  "splitlines text = split_lines False [] text"

text \<open>
  \<open>str.lower()\<close>. The markers looked for are ASCII, and the only code points beyond
  ASCII whose lower case has an ASCII letter in it are U+0130 (i followed by U+0307)
  and U+212A (k); every other cased code point beyond ASCII goes to code points
  beyond ASCII and is kept here as it is.
\<close>

definition lower_cp :: "nat \<Rightarrow> pystr" where
  "lower_cp c =
     (if 65 \<le> c \<and> c \<le> 90 then [c + 32]
      else if c = 304 then [105, 775]
      else if c = 8490 then [107]
      else [c])"

definition lower :: "pystr \<Rightarrow> pystr" where
  "lower s = concat (map lower_cp s)"

text \<open>\<open>sub in s\<close> on strings.\<close>

fun contains :: "pystr \<Rightarrow> pystr \<Rightarrow> bool" where
  "contains sub [] = (sub = [])"
| "contains sub (c # cs) = (take (length sub) (c # cs) = sub \<or> contains sub cs)"

definition has_marker :: "pystr \<Rightarrow> bool" where
  "has_marker line =
     (contains (lit ''prop_id'') (lower line) \<or> contains (lit ''property_id'') (lower line)
      \<or> contains (lit ''PropertyID'') line)"

text \<open>\<open>line.split(":")\<close>: always at least one part.\<close>

definition colon :: nat where
  "colon = 58"

fun split_sep :: "nat \<Rightarrow> pystr \<Rightarrow> pystr list" where
  "split_sep sep [] = [[]]"
| "split_sep sep (c # cs) =
     (if c = sep then [] # split_sep sep cs
      else (case split_sep sep cs of
              [] \<Rightarrow> [[c]]
            | p # ps \<Rightarrow> (c # p) # ps))"

text \<open>\<open>str.strip()\<close> removes the code points of \<open>str.isspace\<close> at both ends.\<close>

definition is_space :: "nat \<Rightarrow> bool" where
  "is_space c =
     ((9 \<le> c \<and> c \<le> 13) \<or> (28 \<le> c \<and> c \<le> 32) \<or> c = 133 \<or> c = 160 \<or> c = 5760
      \<or> (8192 \<le> c \<and> c \<le> 8202) \<or> c = 8232 \<or> c = 8233 \<or> c = 8239 \<or> c = 8287
      \<or> c = 12288)"

definition strip :: "pystr \<Rightarrow> pystr" where
  "strip s = rev (dropWhile is_space (rev (dropWhile is_space s)))"

text \<open>
  The loop over the lines, from \<open>prop_id = "UNKNOWN"\<close> on: the first line with a marker
  and more than one part gives the identifier and ends the loop.
\<close>

fun scan_lines :: "pystr list \<Rightarrow> pystr" where
  "scan_lines [] = UNKNOWN"
| "scan_lines (line # rest) =
     (if has_marker line
      then (let parts = split_sep colon line
            in if length parts > 1 then strip (parts ! 1) else scan_lines rest)
      else scan_lines rest)"

definition extract_prop_id :: "bytes \<Rightarrow> pystr" where
  "extract_prop_id contents = scan_lines (splitlines (decode_ignore contents))"

section \<open>The upload handlers\<close>

text \<open>
  What a handler takes from outside the logs: the multipart upload, the readings of
  \<open>datetime.now()\<close> and \<open>uuid.uuid4()\<close> made during the call, and what became of
  copying the upload into \<open>UPLOAD_DIR\<close>. \<open>Failed None\<close> is an \<open>open\<close> that raised;
  \<open>Failed (Some b)\<close> is a copy that raised with \<open>b\<close> written so far.
\<close>

record upload_file =
  uf_filename :: pystr
  uf_file :: bytes

datatype copy_result = Written | Failed "bytes option"

record call_env =
  strftime_now :: pystr
  uuid4 :: pystr
  isoformat_now :: pystr
  isoformat_response :: pystr
  copyfileobj :: copy_result

text \<open>
  What the host supplies: \<open>hashlib.sha256(contents).hexdigest()\<close> and
  \<open>os.path.join(UPLOAD_DIR, name)\<close>.
\<close>

record host =
  sha256_hexdigest :: "bytes \<Rightarrow> pystr"
  upload_dir_join :: "pystr \<Rightarrow> pystr"

definition save_upload :: "host \<Rightarrow> call_env \<Rightarrow> upload_file \<Rightarrow> store \<Rightarrow> (error + pystr \<times> bytes) \<times> store" where
  "save_upload h env file s =
     (let path = upload_dir_join h (strftime_now env @ lit ''_'' @ uf_filename file)
      in case copyfileobj env of
           Failed partial \<Rightarrow>
             (case partial of
                None \<Rightarrow> (Inl OSError, s)
              | Some b \<Rightarrow> (Inl OSError, s\<lparr>uploads := (uploads s)(path \<mapsto> b)\<rparr>))
         | Written \<Rightarrow>
             (let s = s\<lparr>uploads := (uploads s)(path \<mapsto> uf_file file)\<rparr>
              in case uploads s path of
                   None \<Rightarrow> (Inl OSError, s)
                 | Some contents \<Rightarrow> (Inr (path, contents), s)))"

definition stage_file :: "host \<Rightarrow> call_env \<Rightarrow> upload_file \<Rightarrow> store \<Rightarrow> (error + safe_row) \<times> store" where
  "stage_file h env file s =
     (case save_upload h env file s of
        (Inl e, s) \<Rightarrow> (Inl e, s)
      | (Inr (path, contents), s) \<Rightarrow>
          let sha = sha256_hexdigest h contents;
              pid = extract_prop_id contents;
              uid = uuid4 env;
              df = STAGING_FILE s;
              new_row = \<lparr>upload_id = uid, timestamp = isoformat_now env,
                         filename = uf_filename file, sha256 = sha, prop_id = pid,
                         status = PENDING, file_path = path\<rparr>;
              df = df @ [new_row];
              s = s\<lparr>STAGING_FILE := df\<rparr>
          in (Inr \<lparr>upload_id = uid, timestamp = isoformat_response env,
                    filename = uf_filename file, sha256 = sha, prop_id = pid,
                    status = PENDING\<rparr>, s))"

datatype imported = Imported pystr pystr pystr pystr pystr

definition direct_import :: "host \<Rightarrow> call_env \<Rightarrow> upload_file \<Rightarrow> store \<Rightarrow> (error + imported) \<times> store" where
  "direct_import h env file s =
     (case save_upload h env file s of
        (Inl e, s) \<Rightarrow> (Inl e, s)
      | (Inr (path, contents), s) \<Rightarrow>
          let sha = sha256_hexdigest h contents;
              pid = extract_prop_id contents;
              uid = uuid4 env;
              df = AUDIT_FILE s;
              new_row = \<lparr>upload_id = uid, timestamp = isoformat_now env,
                         filename = uf_filename file, sha256 = sha, prop_id = pid,
                         status = APPROVED, file_path = path\<rparr>;
              df = df @ [new_row];
              s = s\<lparr>AUDIT_FILE := df\<rparr>
          in (Inr (Imported (lit ''success'') (uf_filename file) pid sha (lit ''none'')), s))"

section \<open>Listing and export\<close>

text \<open>
  \<open>get_staging_data\<close>: the six selected columns of every staging row.
\<close>

definition get_staging_data :: "store \<Rightarrow> safe_row list" where
  "get_staging_data s = map safe_row.truncate (STAGING_FILE s)"







section \<open>Sequences of calls\<close>

datatype request =
    Stage call_env upload_file
  | Import call_env upload_file
  | Approve pystr
  | Rollback pystr

fun handle :: "host \<Rightarrow> request \<Rightarrow> store \<Rightarrow> store" where
  "handle h (Stage env file) s = snd (stage_file h env file s)"
| "handle h (Import env file) s = snd (direct_import h env file s)"
| "handle h (Approve uid) s = snd (approve_upload uid s)"
| "handle h (Rollback uid) s = snd (rollback_upload uid s)"

definition run :: "host \<Rightarrow> request list \<Rightarrow> store \<Rightarrow> store" where
  "run h reqs s = fold (handle h) reqs s"

text \<open>The identifiers of the records a sequence of calls creates.\<close>

fun created :: "request \<Rightarrow> pystr set" where
  "created (Stage env file) = (if copyfileobj env = Written then {uuid4 env} else {})"
| "created (Import env file) = (if copyfileobj env = Written then {uuid4 env} else {})"
| "created (Approve uid) = {}"
| "created (Rollback uid) = {}"

definition all_created :: "request list \<Rightarrow> pystr set" where
  "all_created reqs = (\<Union>r \<in> set reqs. created r)"

definition all_ids :: "store \<Rightarrow> pystr set" where
  "all_ids s = ids (STAGING_FILE s) \<union> ids (AUDIT_FILE s) \<union> ids (ROLLBACK_FILE s)"


text \<open>
  The row both upload handlers build when the copy has succeeded; \<open>stage_file\<close> appends
  it to the staging log as it is, \<open>direct_import\<close> appends it to the audit log with the
  status \<open>APPROVED\<close>.
\<close>

definition staged_row :: "host \<Rightarrow> call_env \<Rightarrow> upload_file \<Rightarrow> row" where
  "staged_row h env file =
     \<lparr>upload_id = uuid4 env, timestamp = isoformat_now env, filename = uf_filename file,
      sha256 = sha256_hexdigest h (uf_file file), prop_id = extract_prop_id (uf_file file),
      status = PENDING,
      file_path = upload_dir_join h (strftime_now env @ lit ''_'' @ uf_filename file)\<rparr>"


section \<open>An example upload\<close>

text \<open>
  The upload of the scenario: a file \<open>parcel1.xml\<close> holding \<open>prop_id: 4500\<close>, and a
  second one whose first byte is not UTF-8. The host's digests are those of SHA-256 on
  these two contents.
\<close>

definition example_host :: host where
  "example_host =
     \<lparr>sha256_hexdigest =
        (\<lambda>contents.
           if contents = ''prop_id: 4500''
           then lit ''1a2d66a075f60d302bbf4a4fb4d81083771809017d4dc26a4ca9d38433e6c650''
           else if contents = CHR 0xFF # ''prop_id: 45''
           then lit ''c9fa27c15cf14f6321d0ab0f67db271bd3a4d4b592936746f698847a60d8ef9d''
           else []),
      upload_dir_join = (\<lambda>name. lit ''/srv/server/uploads/'' @ name)\<rparr>"

definition example_id :: pystr where
  "example_id = lit ''6fa459ea-ee8a-4ca4-894e-db77e160355e''"

definition example_env :: call_env where
  "example_env =
     \<lparr>strftime_now = lit ''20240101100000'', uuid4 = example_id,
      isoformat_now = lit ''2024-01-01T10:00:00.000123'',
      isoformat_response = lit ''2024-01-01T10:00:00.000456'',
      copyfileobj = Written\<rparr>"

definition example_file :: upload_file where
  "example_file = \<lparr>uf_filename = lit ''parcel1.xml'', uf_file = ''prop_id: 4500''\<rparr>"


definition example_row :: row where
  "example_row =
     \<lparr>upload_id = example_id, timestamp = lit ''2024-01-01T10:00:00.000123'',
      filename = lit ''parcel1.xml'',
      sha256 = lit ''1a2d66a075f60d302bbf4a4fb4d81083771809017d4dc26a4ca9d38433e6c650'',
      prop_id = lit ''4500'', status = PENDING,
      file_path = lit ''/srv/server/uploads/20240101100000_parcel1.xml''\<rparr>"

definition staged_store :: store where
  "staged_store = snd (stage_file example_host example_env example_file empty_store)"


section \<open>Basic facts\<close>

lemma lit_eq_iff [simp]: "lit a = lit b \<longleftrightarrow> a = b"
  by (simp add: lit_def inj_map_eq_map inj_on_def)


lemma select_id_empty_iff: "select_id uid df = [] \<longleftrightarrow> uid \<notin> ids df"
  by (auto simp: select_id_def ids_def filter_empty_conv)

lemma ids_append [simp]: "ids (a @ b) = ids a \<union> ids b"
  by (auto simp: ids_def)

lemma ids_set_status [simp]: "ids (set_status uid v df) = ids df"
  by (induction df) (auto simp: set_status_def ids_def)

lemma ids_select_id: "ids (select_id uid df) = ids df \<inter> {uid}"
  by (auto simp: select_id_def ids_def)

lemma ids_filter_neq: "ids (filter (\<lambda>r. upload_id r \<noteq> uid) df) = ids df - {uid}"
  by (auto simp: ids_def)



lemma approve_upload_found:
  assumes "uid \<in> ids (STAGING_FILE s)"
  shows "approve_upload uid s =
           (Inr (Message ''success'' ''Upload approved and processed''),
            s\<lparr>STAGING_FILE := set_status uid APPROVED (STAGING_FILE s),
              AUDIT_FILE := AUDIT_FILE s @ select_id uid (STAGING_FILE s)\<rparr>)"
  using assms by (simp add: approve_upload_def select_id_empty_iff Let_def)

lemma approve_upload_missing:
  assumes "uid \<notin> ids (STAGING_FILE s)"
  shows "approve_upload uid s = (Inl (HTTPException 404 ''Upload not found''), s)"
  using assms by (simp add: approve_upload_def select_id_empty_iff)

lemma rollback_upload_found:
  assumes "uid \<in> ids (AUDIT_FILE s)"
  shows "rollback_upload uid s =
           (Inr (Message ''success'' ''Upload has been rolled back successfully''),
            s\<lparr>AUDIT_FILE := filter (\<lambda>r. upload_id r \<noteq> uid) (AUDIT_FILE s),
              ROLLBACK_FILE := ROLLBACK_FILE s @ select_id uid (AUDIT_FILE s)\<rparr>)"
  using assms by (simp add: rollback_upload_def select_id_empty_iff Let_def)

lemma rollback_upload_missing:
  assumes "uid \<notin> ids (AUDIT_FILE s)"
  shows "rollback_upload uid s = (Inl (HTTPException 404 ''Upload not found in audit log''), s)"
  using assms by (simp add: rollback_upload_def select_id_empty_iff)

lemma save_upload_written:
  "copyfileobj env = Written \<Longrightarrow>
   save_upload h env file s =
     (Inr (upload_dir_join h (strftime_now env @ lit ''_'' @ uf_filename file), uf_file file),
      s\<lparr>uploads := (uploads s)(upload_dir_join h (strftime_now env @ lit ''_'' @ uf_filename file)
                                \<mapsto> uf_file file)\<rparr>)"
  by (simp add: save_upload_def Let_def)

lemma save_upload_failed:
  "copyfileobj env \<noteq> Written \<Longrightarrow>
   fst (save_upload h env file s) = Inl OSError
   \<and> STAGING_FILE (snd (save_upload h env file s)) = STAGING_FILE s
   \<and> AUDIT_FILE (snd (save_upload h env file s)) = AUDIT_FILE s
   \<and> ROLLBACK_FILE (snd (save_upload h env file s)) = ROLLBACK_FILE s"
  by (simp add: save_upload_def Let_def split: copy_result.splits option.splits)

lemma stage_file_written:
  "copyfileobj env = Written \<Longrightarrow>
   stage_file h env file s =
     (Inr ((safe_row.truncate (staged_row h env file))\<lparr>timestamp := isoformat_response env\<rparr>),
      s\<lparr>uploads := (uploads s)(file_path (staged_row h env file) \<mapsto> uf_file file),
        STAGING_FILE := STAGING_FILE s @ [staged_row h env file]\<rparr>)"
  by (simp add: stage_file_def save_upload_written Let_def staged_row_def safe_row.truncate_def)

lemma stage_file_failed:
  "copyfileobj env \<noteq> Written \<Longrightarrow>
   fst (stage_file h env file s) = Inl OSError
   \<and> STAGING_FILE (snd (stage_file h env file s)) = STAGING_FILE s
   \<and> AUDIT_FILE (snd (stage_file h env file s)) = AUDIT_FILE s
   \<and> ROLLBACK_FILE (snd (stage_file h env file s)) = ROLLBACK_FILE s"
  using save_upload_failed [of env h "file" s]
  by (cases "save_upload h env file s") (auto simp: stage_file_def split: sum.splits)

lemma direct_import_written:
  "copyfileobj env = Written \<Longrightarrow>
   direct_import h env file s =
     (Inr (Imported (lit ''success'') (uf_filename file) (extract_prop_id (uf_file file))
             (sha256_hexdigest h (uf_file file)) (lit ''none'')),
      s\<lparr>uploads := (uploads s)(file_path (staged_row h env file) \<mapsto> uf_file file),
        AUDIT_FILE := AUDIT_FILE s @ [(staged_row h env file)\<lparr>status := APPROVED\<rparr>]\<rparr>)"
  by (simp add: direct_import_def save_upload_written Let_def staged_row_def)

lemma direct_import_failed:
  "copyfileobj env \<noteq> Written \<Longrightarrow>
   fst (direct_import h env file s) = Inl OSError
   \<and> STAGING_FILE (snd (direct_import h env file s)) = STAGING_FILE s
   \<and> AUDIT_FILE (snd (direct_import h env file s)) = AUDIT_FILE s
   \<and> ROLLBACK_FILE (snd (direct_import h env file s)) = ROLLBACK_FILE s"
  using save_upload_failed [of env h "file" s]
  by (cases "save_upload h env file s") (auto simp: direct_import_def split: sum.splits)

lemma extract_example: "extract_prop_id ''prop_id: 4500'' = lit ''4500''"
proof -
  have 1: "decode_ignore ''prop_id: 4500'' = lit ''prop_id: 4500''"
    by (simp add: decode_ignore_def lit_def)
  have 2: "splitlines (lit ''prop_id: 4500'') = [lit ''prop_id: 4500'']"
    by (simp add: splitlines_def lit_def is_linebreak_def)
  have 3: "has_marker (lit ''prop_id: 4500'')"
    by (simp add: has_marker_def lit_def lower_def lower_cp_def)
  have 4: "split_sep colon (lit ''prop_id: 4500'') = [lit ''prop_id'', lit '' 4500'']"
    by (simp add: lit_def colon_def)
  have 5: "strip (lit '' 4500'') = lit ''4500''"
    by (simp add: lit_def strip_def is_space_def)
  show ?thesis
    by (simp add: extract_prop_id_def 1 2 3 4 5)
qed

lemma staged_row_example: "staged_row example_host example_env example_file = example_row"
  by (simp add: staged_row_def example_host_def example_env_def example_file_def example_row_def
      extract_example lit_def)


lemma handle_all_ids: "all_ids (handle h r s) = all_ids s \<union> created r"
proof (cases r)
  case (Stage env f)
  show ?thesis
  proof (cases "copyfileobj env = Written")
    case True
    then show ?thesis
      using Stage by (auto simp: stage_file_written all_ids_def staged_row_def ids_def)
  next
    case False
    then show ?thesis
      using Stage stage_file_failed [of env h f s] by (simp add: all_ids_def)
  qed
next
  case (Import env f)
  show ?thesis
  proof (cases "copyfileobj env = Written")
    case True
    then show ?thesis
      using Import by (auto simp: direct_import_written all_ids_def staged_row_def ids_def)
  next
    case False
    then show ?thesis
      using Import direct_import_failed [of env h f s] by (simp add: all_ids_def)
  qed
next
  case (Approve uid)
  show ?thesis
  proof (cases "uid \<in> ids (STAGING_FILE s)")
    case True
    then show ?thesis
      using Approve by (auto simp: approve_upload_found all_ids_def ids_select_id)
  next
    case False
    then show ?thesis
      using Approve by (simp add: approve_upload_missing)
  qed
next
  case (Rollback uid)
  show ?thesis
  proof (cases "uid \<in> ids (AUDIT_FILE s)")
    case True
    then show ?thesis
      using Rollback
      by (auto simp: rollback_upload_found all_ids_def ids_select_id ids_filter_neq)
  next
    case False
    then show ?thesis
      using Rollback by (simp add: rollback_upload_missing)
  qed
qed

lemma run_all_ids: "all_ids (run h reqs s) = all_ids s \<union> all_created reqs"
  by (induction reqs arbitrary: s) (auto simp: run_def all_created_def handle_all_ids)










lemma example_env_written: "copyfileobj example_env = Written"
  by (simp add: example_env_def)

lemma staged_store_logs:
  "STAGING_FILE staged_store = [example_row]"
  "AUDIT_FILE staged_store = []"
  "ROLLBACK_FILE staged_store = []"
  by (simp_all add: staged_store_def stage_file_written example_env_written staged_row_example
      empty_store_def)


lemma example_row_fields:
  "upload_id example_row = example_id" "status example_row = PENDING"
  by (simp_all add: example_row_def)

lemma ids_singleton [simp]: "ids [r] = {upload_id r}"
  by (simp add: ids_def)

lemma ids_Nil [simp]: "ids [] = {}"
  by (simp add: ids_def)

lemma example_in_staged: "example_id \<in> ids (STAGING_FILE staged_store)"
  by (simp add: staged_store_logs example_row_fields)

lemma approve_staged_store:
  "approve_upload example_id staged_store =
     (Inr (Message ''success'' ''Upload approved and processed''),
      staged_store\<lparr>STAGING_FILE := [example_row\<lparr>status := APPROVED\<rparr>],
                   AUDIT_FILE := [example_row]\<rparr>)"
  by (simp add: approve_upload_found example_in_staged staged_store_logs set_status_def
      select_id_def example_row_fields)


section \<open>Claims about approve and rollback\<close>








text \<open>
  C6. For every upload_id absent from the audit table (so also one that is in the
  staging table with status \<open>PENDING\<close> and was never approved), \<open>rollback_upload\<close>
  fails with the 404 "not found" error and leaves every table unchanged; its outcome
  depends on the audit table only.
\<close>

theorem rollback_upload_not_in_audit:
  "uid \<notin> ids (AUDIT_FILE s) \<Longrightarrow>
     rollback_upload uid s = (Inl (HTTPException 404 ''Upload not found in audit log''), s)
     \<and> is_not_found (HTTPException 404 ''Upload not found in audit log'')
     \<and> (\<forall>t. AUDIT_FILE t = AUDIT_FILE s \<longrightarrow> fst (rollback_upload uid t) = fst (rollback_upload uid s))"
  by (simp add: rollback_upload_def select_id_empty_iff Let_def)

theorem rollback_upload_not_in_audit_witness:
  "example_id \<in> ids (STAGING_FILE staged_store)
   \<and> status (hd (STAGING_FILE staged_store)) = PENDING
   \<and> example_id \<notin> ids (AUDIT_FILE staged_store)
   \<and> rollback_upload example_id staged_store
       = (Inl (HTTPException 404 ''Upload not found in audit log''), staged_store)"
  using rollback_upload_not_in_audit [of example_id staged_store]
  by (simp add: staged_store_logs example_row_fields)



lemma run_Cons: "run h (r # reqs) s = run h reqs (handle h r s)"
  by (simp add: run_def)

lemma run_Nil: "run h [] s = s"
  by (simp add: run_def)

lemma run_stage_approve:
  "run example_host [Stage example_env example_file, Approve example_id] empty_store
     = staged_store\<lparr>STAGING_FILE := [example_row\<lparr>status := APPROVED\<rparr>],
                    AUDIT_FILE := [example_row]\<rparr>"
  by (simp add: run_Cons run_Nil approve_staged_store flip: staged_store_def)

section \<open>Claims about sequences of calls\<close>

text \<open>
  C2, as amended. At every point reachable from the empty logs by any sequence of
  stage, direct-import, approve and rollback calls, the union of the upload_ids in the
  staging, audit and rollback tables equals the set of upload_ids created so far: no
  record is lost. The tables are not disjoint, since an approved record stays in the
  staging table.
\<close>

theorem no_record_lost:
  "all_ids (run h reqs empty_store) = all_created reqs"
proof -
  have "all_ids empty_store = {}"
    by (simp add: all_ids_def empty_store_def)
  then show ?thesis
    by (simp add: run_all_ids)
qed

theorem no_record_lost_witness:
  "all_ids (run example_host [Stage example_env example_file, Approve example_id] empty_store)
     = {example_id}"
  using no_record_lost [of example_host "[Stage example_env example_file, Approve example_id]"]
  by (simp add: all_created_def example_env_def)

text \<open>
  C2 as stated fails after one stage call and one approve call: the upload_id is in the
  staging table and in the audit table at once.
\<close>

theorem tables_disjoint_counterexample:
  "example_id \<in> ids (STAGING_FILE
       (run example_host [Stage example_env example_file, Approve example_id] empty_store))
   \<and> example_id \<in> ids (AUDIT_FILE
       (run example_host [Stage example_env example_file, Approve example_id] empty_store))"
  by (simp add: run_stage_approve example_row_fields)

















section \<open>Claims about listing, export and staging\<close>




text \<open>
  C10. For every state of the staging table, \<open>get_staging_data\<close> returns, row by row,
  exactly the fields \<open>upload_id\<close>, \<open>timestamp\<close>, \<open>filename\<close>, \<open>sha256\<close>, \<open>prop_id\<close> and
  \<open>status\<close>; \<open>file_path\<close> is not in the output, which is the same for any two staging
  tables that differ in their stored paths only.
\<close>

theorem get_staging_data_hides_file_path:
  "get_staging_data s =
     map (\<lambda>r. \<lparr>upload_id = upload_id r, timestamp = timestamp r, filename = filename r,
               sha256 = sha256 r, prop_id = prop_id r, status = status r\<rparr>) (STAGING_FILE s)
   \<and> get_staging_data (s\<lparr>STAGING_FILE := map (file_path_update f) (STAGING_FILE s)\<rparr>)
       = get_staging_data s
   \<and> (list_all2 (\<lambda>a b. upload_id a = upload_id b \<and> timestamp a = timestamp b
                       \<and> filename a = filename b \<and> sha256 a = sha256 b
                       \<and> prop_id a = prop_id b \<and> status a = status b)
         (STAGING_FILE s) (STAGING_FILE t)
       \<longrightarrow> get_staging_data s = get_staging_data t)"
proof (intro conjI impI)
  assume "list_all2 (\<lambda>a b. upload_id a = upload_id b \<and> timestamp a = timestamp b
                       \<and> filename a = filename b \<and> sha256 a = sha256 b
                       \<and> prop_id a = prop_id b \<and> status a = status b)
         (STAGING_FILE s) (STAGING_FILE t)"
  then have "map safe_row.truncate (STAGING_FILE s) = map safe_row.truncate (STAGING_FILE t)"
    by (induction rule: list_all2_induct) (simp_all add: safe_row.truncate_def)
  then show "get_staging_data s = get_staging_data t"
    by (simp add: get_staging_data_def)
qed (simp_all add: get_staging_data_def safe_row.truncate_def comp_def)

theorem get_staging_data_hides_file_path_witness:
  "list_all2 (\<lambda>a b. upload_id a = upload_id b \<and> timestamp a = timestamp b
                       \<and> filename a = filename b \<and> sha256 a = sha256 b
                       \<and> prop_id a = prop_id b \<and> status a = status b)
     (STAGING_FILE staged_store)
     (STAGING_FILE (staged_store\<lparr>STAGING_FILE := [example_row\<lparr>file_path := lit ''elsewhere''\<rparr>]\<rparr>))
   \<and> get_staging_data staged_store
       = get_staging_data (staged_store\<lparr>STAGING_FILE := [example_row\<lparr>file_path := lit ''elsewhere''\<rparr>]\<rparr>)
   \<and> get_staging_data staged_store = [safe_row.truncate example_row]"
proof -
  let ?t = "staged_store\<lparr>STAGING_FILE := [example_row\<lparr>file_path := lit ''elsewhere''\<rparr>]\<rparr>"
  note fact = get_staging_data_hides_file_path [of staged_store id ?t]
  have rel: "list_all2 (\<lambda>a b. upload_id a = upload_id b \<and> timestamp a = timestamp b
                       \<and> filename a = filename b \<and> sha256 a = sha256 b
                       \<and> prop_id a = prop_id b \<and> status a = status b)
     (STAGING_FILE staged_store) (STAGING_FILE ?t)"
    by (simp add: staged_store_logs)
  have same: "get_staging_data staged_store = get_staging_data ?t"
    using fact rel by blast
  have listing: "get_staging_data staged_store = [safe_row.truncate example_row]"
    by (simp add: get_staging_data_def staged_store_logs)
  from rel same listing show ?thesis
    by blast
qed


section \<open>Facts about the text handling\<close>




















section \<open>Claim about the identifier of a staged upload\<close>




end
